theory Spec2Isabelle
  imports Main "HOL-Library.Sublist"
begin

section \<open>Python values, strings and exceptions\<close>

text \<open>
  The agent is Python. Exceptions are values of \<open>pyerr\<close>; a computation that can raise
  has type \<open>pyerr + 'a\<close>, with \<open>Inl\<close> the exception. Strings are \<open>char list\<close>s over ASCII.
\<close>

datatype pyerr =
    AttributeError
  | KeyError
  | IndexError
  | TypeError
  | NameError
  | UnboundLocalError
  | JSONDecodeError
  | BrowserError
  | EOFError

definition and_then :: "pyerr + 'a \<Rightarrow> ('a \<Rightarrow> pyerr + 'b) \<Rightarrow> pyerr + 'b" where
  "and_then m k = (case m of Inl e \<Rightarrow> Inl e | Inr x \<Rightarrow> k x)"

text \<open>The scalar leaves of the YAML profile: null, booleans, integers and strings.\<close>

datatype pyval = PNone | PBool bool | PInt int | PStr string

text \<open>Truthiness, as \<^verbatim>\<open>if value:\<close> tests it.\<close>

fun py_truthy :: "pyval \<Rightarrow> bool" where
  "py_truthy PNone = False"
| "py_truthy (PBool b) = b"
| "py_truthy (PInt i) = (i \<noteq> 0)"
| "py_truthy (PStr s) = (s \<noteq> [])"

fun dec :: "nat \<Rightarrow> string" where
  "dec n = (if n < 10 then [''0123456789'' ! n]
            else dec (n div 10) @ [''0123456789'' ! (n mod 10)])"

declare dec.simps [simp del]

text \<open>\<^verbatim>\<open>str(v)\<close>, which is what an f-string interpolates.\<close>

fun py_str :: "pyval \<Rightarrow> string" where
  "py_str PNone = ''None''"
| "py_str (PBool b) = (if b then ''True'' else ''False'')"
| "py_str (PInt i) = (if i < 0 then ''-'' @ dec (nat (- i)) else dec (nat i))"
| "py_str (PStr s) = s"

text \<open>\<^verbatim>\<open>str.lower()\<close> on ASCII: the 26 capital letters are mapped, every other character is kept.\<close>

definition lower_char :: "char \<Rightarrow> char" where
  "lower_char c =
     (case map_of (zip ''ABCDEFGHIJKLMNOPQRSTUVWXYZ'' ''abcdefghijklmnopqrstuvwxyz'') c of
        None \<Rightarrow> c
      | Some d \<Rightarrow> d)"

definition lower :: "string \<Rightarrow> string" where
  "lower s = map lower_char s"

text \<open>\<^verbatim>\<open>sub in s\<close> on strings: \<open>sub\<close> occurs in \<open>s\<close> as a contiguous block.\<close>

definition py_in :: "string \<Rightarrow> string \<Rightarrow> bool" where
  "py_in sub s = sublist sub s"

abbreviation NL :: char where
  "NL \<equiv> CHR 0x0A"

text \<open>
  \<^verbatim>\<open>s.split(sep)\<close> for a non-empty separator: a left-to-right scan that cuts at each
  occurrence of \<open>sep\<close> and resumes after it. The second argument holds the characters of a
  matched separator that are still to be skipped, the third the current piece, reversed.
\<close>

fun split_from :: "string \<Rightarrow> string \<Rightarrow> string \<Rightarrow> string \<Rightarrow> string list" where
  "split_from sep skip cur [] = [rev cur]"
| "split_from sep (x # skip) cur (c # cs) = split_from sep skip cur cs"
| "split_from sep [] cur (c # cs) =
     (if prefix sep (c # cs) then rev cur # split_from sep (tl sep) [] cs
      else split_from sep [] (c # cur) cs)"

definition py_split :: "string \<Rightarrow> string \<Rightarrow> string list" where
  "py_split sep s = split_from sep [] [] s"

text \<open>\<^verbatim>\<open>str.strip()\<close>: ASCII whitespace is removed at both ends.\<close>

definition py_isspace :: "char \<Rightarrow> bool" where
  "py_isspace c = (c \<in> set [CHR 0x09, CHR 0x0A, CHR 0x0B, CHR 0x0C, CHR 0x0D,
                              CHR 0x1C, CHR 0x1D, CHR 0x1E, CHR 0x1F, CHR 0x20])"

definition py_strip :: "string \<Rightarrow> string" where
  "py_strip s = rev (dropWhile py_isspace (rev (dropWhile py_isspace s)))"

text \<open>\<^verbatim>\<open>sep.join(xs)\<close>: every element has to be a string, anything else is a TypeError.\<close>

fun py_join :: "string \<Rightarrow> pyval list \<Rightarrow> pyerr + string" where
  "py_join sep [] = Inr []"
| "py_join sep [PStr s] = Inr s"
| "py_join sep (PStr s # v # vs) =
     (case py_join sep (v # vs) of Inl e \<Rightarrow> Inl e | Inr r \<Rightarrow> Inr (s @ sep @ r))"
| "py_join sep (_ # vs) = Inl TypeError"

section \<open>The applicant profile\<close>

text \<open>
  \<^verbatim>\<open>self.config\<close> is the YAML profile: a dict of sections. A dict is a map, an absent key
  is \<open>None\<close> of the map and subscripting it is a KeyError. A section that is absent from
  the document is \<open>None\<close> of the record field.
\<close>

type_synonym pydict = "string \<rightharpoonup> pyval"

record experience =
  position :: "pyval option"
  company :: "pyval option"
  key_responsibilities :: "pyval list option"

record config =
  personal_information :: "pydict option"
  experience_details :: "experience list option"
  skills :: "(string \<rightharpoonup> pyval list) option"

definition getitem :: "(string \<rightharpoonup> 'v) \<Rightarrow> string \<Rightarrow> pyerr + 'v" where
  "getitem d k = (case d k of None \<Rightarrow> Inl KeyError | Some v \<Rightarrow> Inr v)"

definition section_of :: "'s option \<Rightarrow> pyerr + 's" where
  "section_of s = (case s of None \<Rightarrow> Inl KeyError | Some d \<Rightarrow> Inr d)"

definition index0 :: "'a list \<Rightarrow> pyerr + 'a" where
  "index0 xs = (case xs of [] \<Rightarrow> Inl IndexError | x # _ \<Rightarrow> Inr x)"

text \<open>\<^verbatim>\<open>self.config['personal_information'][k]\<close>\<close>

definition personal :: "config \<Rightarrow> string \<Rightarrow> pyerr + pyval" where
  "personal cfg k = and_then (section_of (personal_information cfg)) (\<lambda>d. getitem d k)"

text \<open>\<^verbatim>\<open>self.config['skills'][k][0]\<close>\<close>

definition skill0 :: "config \<Rightarrow> string \<Rightarrow> pyerr + pyval" where
  "skill0 cfg k =
     and_then (section_of (skills cfg)) (\<lambda>d. and_then (getitem d k) index0)"

text \<open>\<^verbatim>\<open>d.get(k, default)\<close> on an experience entry.\<close>

definition get_or :: "'v option \<Rightarrow> 'v \<Rightarrow> 'v" where
  "get_or v d = (case v of None \<Rightarrow> d | Some x \<Rightarrow> x)"

definition empty_experience :: experience where
  "empty_experience = \<lparr>position = None, company = None, key_responsibilities = None\<rparr>"

text \<open>
  \<^verbatim>\<open>_generate_cover_letter\<close>: the first experience entry (\<^verbatim>\<open>[{}]\<close> when the section is
  absent), then one f-string whose interpolations are evaluated left to right.
\<close>

definition generate_cover_letter :: "config \<Rightarrow> pyerr + string" where
  "generate_cover_letter cfg =
     and_then (index0 (get_or (experience_details cfg) [empty_experience])) (\<lambda>exp.
     and_then (section_of (skills cfg)) (\<lambda>sk.
     and_then (getitem sk ''programming_languages'') (\<lambda>langs.
     and_then (py_join '', '' (take 3 langs)) (\<lambda>joined.
     and_then (index0 (get_or (key_responsibilities exp) [PStr ''''])) (\<lambda>achievement.
     and_then (skill0 cfg ''ai_ml'') (\<lambda>ai.
     and_then (skill0 cfg ''cloud_services'') (\<lambda>cloud.
     and_then (personal cfg ''name'') (\<lambda>nm.
     and_then (personal cfg ''surname'') (\<lambda>sn.
       Inr (''Dear Hiring Manager,'' @ [NL, NL]
          @ ''I am writing to express my interest in the position. As a ''
          @ py_str (get_or (position exp) (PStr '''')) @ '' at ''
          @ py_str (get_or (company exp) (PStr '''')) @ '', '' @ [NL]
          @ ''I have extensive experience in '' @ joined @ ''.'' @ [NL, NL]
          @ ''Key achievements:'' @ [NL]
          @ py_str achievement @ [NL, NL]
          @ ''I am particularly drawn to this opportunity because of my background in ''
          @ py_str ai @ '' '' @ [NL]
          @ ''and '' @ py_str cloud @ ''.'' @ [NL, NL]
          @ ''Best regards,'' @ [NL]
          @ py_str nm @ '' '' @ py_str sn @ [NL]))))))))))"

section \<open>Direct profile lookup\<close>

text \<open>
  The \<^verbatim>\<open>try\<close> block of \<^verbatim>\<open>_get_field_value_from_config\<close>. The field name is what
  \<^verbatim>\<open>get_attribute('name')\<close> gave: \<open>None\<close> when the control has no name attribute, and
  then \<^verbatim>\<open>field_name.lower()\<close> is an AttributeError.
\<close>

definition get_field_value_body :: "config \<Rightarrow> string option \<Rightarrow> pyerr + pyval" where
  "get_field_value_body cfg fname =
     (case fname of
        None \<Rightarrow> Inl AttributeError
      | Some raw \<Rightarrow>
          (let field_name = lower raw in
           if py_in ''name'' field_name then
             and_then (personal cfg ''name'') (\<lambda>n.
             and_then (personal cfg ''surname'') (\<lambda>s.
               Inr (PStr (py_str n @ '' '' @ py_str s))))
           else if py_in ''email'' field_name then personal cfg ''email''
           else if py_in ''phone'' field_name then personal cfg ''phone''
           else if py_in ''location'' field_name then
             and_then (personal cfg ''city'') (\<lambda>c.
             and_then (personal cfg ''country'') (\<lambda>k.
               Inr (PStr (py_str c @ '', '' @ py_str k))))
           else if py_in ''company'' field_name \<or> py_in ''org'' field_name then
             and_then (section_of (experience_details cfg)) (\<lambda>es.
             and_then (index0 es) (\<lambda>e. section_of (company e)))
           else if py_in ''linkedin'' field_name then personal cfg ''linkedin''
           else if py_in ''github'' field_name then personal cfg ''github''
           else if py_in ''portfolio'' field_name \<or> py_in ''website'' field_name then
             personal cfg ''website''
           else if py_in ''comments'' field_name \<or> py_in ''cover'' field_name then
             (case generate_cover_letter cfg of Inl e \<Rightarrow> Inl e | Inr t \<Rightarrow> Inr (PStr t))
           else Inr PNone))"

text \<open>
  \<^verbatim>\<open>_get_field_value_from_config\<close>: both handlers (\<^verbatim>\<open>except KeyError\<close> and
  \<^verbatim>\<open>except Exception\<close>) log and return \<^verbatim>\<open>None\<close>. The second parameter, the field type,
  is not read.
\<close>

definition get_field_value_from_config :: "config \<Rightarrow> string option \<Rightarrow> string option \<Rightarrow> pyval" where
  "get_field_value_from_config cfg field_name field_type =
     (case get_field_value_body cfg field_name of Inl e \<Rightarrow> PNone | Inr v \<Rightarrow> v)"

section \<open>Field analysis\<close>

text \<open>
  One entry of \<^verbatim>\<open>_get_form_fields\<close>: every key is present, \<open>name\<close>, \<open>type\<close> and
  \<open>placeholder\<close> are what \<^verbatim>\<open>get_attribute\<close> returned (\<open>None\<close> for an absent attribute).
\<close>

record field_info =
  name :: "string option"
  ftype :: "string option"
  required :: bool
  placeholder :: "string option"
  selector :: string

definition hidden_skip :: string where
  "hidden_skip = ''ACTION: SKIP'' @ [NL] @ ''REASON: Hidden field''"

definition resume_upload :: string where
  "resume_upload =
     ''ACTION: UPLOAD'' @ [NL] @ ''VALUE: resume.pdf'' @ [NL] @ ''REASON: Resume upload field''"

definition unknown_file_skip :: string where
  "unknown_file_skip = ''ACTION: SKIP'' @ [NL] @ ''REASON: Unknown file upload''"

definition fill_with :: "pyval \<Rightarrow> string \<Rightarrow> string" where
  "fill_with v reason =
     ''ACTION: FILL'' @ [NL] @ ''VALUE: '' @ py_str v @ [NL] @ ''REASON: '' @ reason"

definition required_alert :: string where
  "required_alert = ''ACTION: ALERT'' @ [NL] @ ''REASON: Required field needs value''"

definition optional_skip :: string where
  "optional_skip = ''ACTION: SKIP'' @ [NL] @ ''REASON: Optional field without data''"

definition error_skip :: string where
  "error_skip = ''ACTION: SKIP'' @ [NL] @ ''REASON: Error in analysis''"

text \<open>The \<^verbatim>\<open>try\<close> block of \<^verbatim>\<open>_analyze_field\<close>.\<close>

definition analyze_field_body :: "config \<Rightarrow> field_info \<Rightarrow> pyerr + string" where
  "analyze_field_body cfg field =
     (let field_name = name field; field_type = ftype field in
      if field_type = Some ''hidden'' then Inr hidden_skip
      else if field_type = Some ''file'' then
        (case field_name of
           None \<Rightarrow> Inl AttributeError
         | Some n \<Rightarrow>
             if py_in ''resume'' (lower n) \<or> py_in ''cv'' (lower n) then Inr resume_upload
             else Inr unknown_file_skip)
      else
        (let v = get_field_value_from_config cfg field_name field_type in
         if required field then
           (if py_truthy v then Inr (fill_with v ''Required field'') else Inr required_alert)
         else if py_truthy v then Inr (fill_with v ''Optional field with data'')
         else Inr optional_skip))"

text \<open>\<^verbatim>\<open>_analyze_field\<close>: the handler logs the exception and returns the error decision.\<close>

definition analyze_field :: "config \<Rightarrow> field_info \<Rightarrow> string" where
  "analyze_field cfg field =
     (case analyze_field_body cfg field of Inl e \<Rightarrow> error_skip | Inr a \<Rightarrow> a)"

text \<open>
  How the agent reads a decision back: \<^verbatim>\<open>log_field_analysis\<close> takes the action as
  \<^verbatim>\<open>analysis.split('ACTION:')[1].split('\n')[0].strip()\<close> when \<^verbatim>\<open>'ACTION:' in analysis\<close>,
  and \<^verbatim>\<open>None\<close> otherwise.
\<close>

definition action_of :: "string \<Rightarrow> string option" where
  "action_of analysis =
     (if py_in ''ACTION:'' analysis
      then Some (py_strip (hd (py_split [NL] (py_split ''ACTION:'' analysis ! 1))))
      else None)"


section \<open>The browser page\<close>

text \<open>
  The Playwright page, as the operations the agent calls on it. Each may raise.
  \<open>locator_count pg sel\<close> is \<^verbatim>\<open>page.locator(sel).count()\<close>. The page is a snapshot: asking
  the same question twice gives the same answer.
\<close>

record page =
  locator_count :: "string \<Rightarrow> pyerr + nat"
  set_input_files :: "string \<Rightarrow> string \<Rightarrow> pyerr + unit"
  wait_for_timeout :: "nat \<Rightarrow> pyerr + unit"
  screenshot :: "string \<Rightarrow> pyerr + unit"
  select_option :: "string \<Rightarrow> string \<Rightarrow> pyerr + unit"
  check :: "string \<Rightarrow> pyerr + unit"
  fill :: "string \<Rightarrow> string \<Rightarrow> pyerr + unit"

text \<open>What the agent asked of the browser and of the console, in the order it asked.\<close>

datatype event =
    Locate string
  | SetInputFiles string string
  | WaitForTimeout nat
  | Screenshot string
  | Input string

section \<open>File upload\<close>

text \<open>
  \<^verbatim>\<open>_try_upload_file\<close>: the selectors in list order, each attempt in its own
  \<^verbatim>\<open>try\<close>; the first attempt that gets through \<^verbatim>\<open>set_input_files\<close> and the wait returns
  \<^verbatim>\<open>True\<close>, an exception is logged and the loop goes on. The file type is only logged.
\<close>

fun try_upload_file :: "page \<Rightarrow> string \<Rightarrow> string list \<Rightarrow> bool \<times> event list" where
  "try_upload_file pg file_path [] = (False, [])"
| "try_upload_file pg file_path (sel # sels) =
     (case locator_count pg sel of
        Inl e \<Rightarrow>
          (let (r, evs) = try_upload_file pg file_path sels in (r, Locate sel # evs))
      | Inr n \<Rightarrow>
          if n > 0 then
            (case set_input_files pg sel file_path of
               Inl e \<Rightarrow>
                 (let (r, evs) = try_upload_file pg file_path sels
                  in (r, Locate sel # SetInputFiles sel file_path # evs))
             | Inr _ \<Rightarrow>
                 (case wait_for_timeout pg 1000 of
                    Inl e \<Rightarrow>
                      (let (r, evs) = try_upload_file pg file_path sels
                       in (r, Locate sel # SetInputFiles sel file_path # WaitForTimeout 1000 # evs))
                  | Inr _ \<Rightarrow>
                      (True, [Locate sel, SetInputFiles sel file_path, WaitForTimeout 1000])))
          else
            (let (r, evs) = try_upload_file pg file_path sels in (r, Locate sel # evs)))"

definition resume_selectors :: "string list" where
  "resume_selectors =
     [''input[name='resume']'',
      ''input[type='file'][name*='resume' i]'',
      ''input[type='file'][accept='.pdf']'',
      ''input[type='file'][name*='cv' i]'',
      ''input[type='file']'']"

text \<open>\<^verbatim>\<open>_upload_resume\<close>; the second argument is \<^verbatim>\<open>str(self.resume_path)\<close>.\<close>

definition upload_resume :: "page \<Rightarrow> string \<Rightarrow> bool \<times> event list" where
  "upload_resume pg resume_path = try_upload_file pg resume_path resume_selectors"

section \<open>CAPTCHA handling\<close>

text \<open>
  \<^verbatim>\<open>_handle_manual_captcha\<close>. The second argument is what the blocking
  \<^verbatim>\<open>input(...)\<close> gives: an exception, or the page as the human left it, on which the settle
  wait and the re-scan then run.
\<close>

definition captcha_prompt :: string where
  "captcha_prompt = ''Please solve the CAPTCHA manually and press Enter to continue...''"

definition generic_marker :: string where
  "generic_marker = ''iframe[src*='captcha']''"

definition handle_manual_captcha :: "page \<Rightarrow> pyerr + page \<Rightarrow> bool \<times> event list" where
  "handle_manual_captcha pg human =
     (case screenshot pg ''captcha.png'' of
        Inl e \<Rightarrow> (False, [Screenshot ''captcha.png''])
      | Inr _ \<Rightarrow>
          (case human of
             Inl e \<Rightarrow> (False, [Screenshot ''captcha.png'', Input captcha_prompt])
           | Inr pg' \<Rightarrow>
               (case wait_for_timeout pg' 2000 of
                  Inl e \<Rightarrow>
                    (False, [Screenshot ''captcha.png'', Input captcha_prompt, WaitForTimeout 2000])
                | Inr _ \<Rightarrow>
                    (case locator_count pg' generic_marker of
                       Inl e \<Rightarrow>
                         (False, [Screenshot ''captcha.png'', Input captcha_prompt,
                                  WaitForTimeout 2000, Locate generic_marker])
                     | Inr n \<Rightarrow>
                         (if n > 0 then False else True,
                          [Screenshot ''captcha.png'', Input captcha_prompt,
                           WaitForTimeout 2000, Locate generic_marker])))))"

definition captcha_selectors :: "(string \<times> string list) list" where
  "captcha_selectors =
     [(''hcaptcha'',
         [''iframe[title*='checkbox']'', ''#h-captcha'', ''.h-captcha'', ''iframe[src*='hcaptcha']'']),
      (''recaptcha'',
         [''iframe[src*='recaptcha']'', ''.g-recaptcha'', ''#recaptcha''])]"

text \<open>
  The two nested loops of \<^verbatim>\<open>handle_captcha\<close> over the selectors, in the order of the
  table. The first selector that counts an element hands over to the manual path; an
  exception leaves through the handler, which returns \<^verbatim>\<open>False\<close>.
\<close>

fun scan_captcha :: "page \<Rightarrow> pyerr + page \<Rightarrow> string list \<Rightarrow> bool \<times> event list" where
  "scan_captcha pg human [] = (False, [])"
| "scan_captcha pg human (sel # sels) =
     (case locator_count pg sel of
        Inl e \<Rightarrow> (False, [Locate sel])
      | Inr n \<Rightarrow>
          if n > 0 then
            (let (r, evs) = handle_manual_captcha pg human in (r, Locate sel # evs))
          else
            (let (r, evs) = scan_captcha pg human sels in (r, Locate sel # evs)))"

definition handle_captcha :: "page \<Rightarrow> pyerr + page \<Rightarrow> bool \<times> event list" where
  "handle_captcha pg human = scan_captcha pg human (concat (map snd captcha_selectors))"

section \<open>Filling a field\<close>

definition succeeded :: "pyerr + 'a \<Rightarrow> bool" where
  "succeeded r = (case r of Inl e \<Rightarrow> False | Inr x \<Rightarrow> True)"

text \<open>
  \<^verbatim>\<open>_fill_field\<close>: every exception is caught and gives \<^verbatim>\<open>False\<close>; one of them is
  \<^verbatim>\<open>field.get('type', '').lower()\<close> on a control without a type attribute.
\<close>

definition fill_field :: "page \<Rightarrow> field_info \<Rightarrow> string \<Rightarrow> bool" where
  "fill_field pg field analysis =
     (if \<not> py_in ''VALUE:'' analysis then False
      else
        (let v = py_strip (hd (py_split [NL] (py_split ''VALUE:'' analysis ! 1)));
             sel = selector field
         in case ftype field of
              None \<Rightarrow> False
            | Some t \<Rightarrow>
                (let field_type = lower t in
                 if field_type = ''select'' then succeeded (select_option pg sel v)
                 else if field_type = ''checkbox'' then
                   (if lower v \<in> set [''true'', ''yes'', ''1''] then succeeded (check pg sel)
                    else True)
                 else if field_type = ''radio'' then succeeded (check pg sel)
                 else succeeded (fill pg sel v))))"

section \<open>The field loop of the application flow\<close>

text \<open>
  Lines 266 to 299 of \<^verbatim>\<open>test_application_flow\<close>. Two names matter: the local
  \<^verbatim>\<open>analysis\<close> and the name \<^verbatim>\<open>required_fields\<close>. Each is \<open>None\<close> while it is unbound;
  reading an unbound local is an UnboundLocalError, reading an unbound global a NameError.
  The pacing calls and the CAPTCHA re-check never raise and change neither name; they are
  left out.
\<close>

type_synonym loop_state = "string option \<times> string option list option"

definition append_required :: "string option list option \<Rightarrow> string option \<Rightarrow> pyerr + string option list option" where
  "append_required required_fields nm =
     (case required_fields of None \<Rightarrow> Inl NameError | Some r \<Rightarrow> Inr (Some (r @ [nm])))"

text \<open>One pass of the loop body.\<close>

definition field_step :: "config \<Rightarrow> page \<Rightarrow> string \<Rightarrow> field_info \<Rightarrow> loop_state \<Rightarrow> pyerr + loop_state" where
  "field_step cfg pg resume_path field st =
     (case fst st of
        None \<Rightarrow> Inl UnboundLocalError
      | Some previous \<Rightarrow>
          (let analysis = analyze_field cfg field in
           if py_in ''ACTION: FILL'' analysis then
             (if \<not> fill_field pg field analysis \<and> required field
              then and_then (append_required (snd st) (name field)) (\<lambda>r. Inr (Some analysis, r))
              else Inr (Some analysis, snd st))
           else if py_in ''ACTION: UPLOAD'' analysis then
             (if \<not> fst (upload_resume pg resume_path) \<and> required field
              then and_then (append_required (snd st) (name field)) (\<lambda>r. Inr (Some analysis, r))
              else Inr (Some analysis, snd st))
           else if py_in ''ACTION: ALERT'' analysis then
             and_then (append_required (snd st) (name field)) (\<lambda>r. Inr (Some analysis, r))
           else Inr (Some analysis, snd st)))"

fun field_loop :: "config \<Rightarrow> page \<Rightarrow> string \<Rightarrow> field_info list \<Rightarrow> loop_state \<Rightarrow> pyerr + loop_state" where
  "field_loop cfg pg resume_path [] st = Inr st"
| "field_loop cfg pg resume_path (field # form_fields) st =
     (case field_step cfg pg resume_path field st of
        Inl e \<Rightarrow> Inl e
      | Inr st' \<Rightarrow> field_loop cfg pg resume_path form_fields st')"

text \<open>
  The report after the loop: \<^verbatim>\<open>if required_fields:\<close> reads the name, and a non-empty list
  goes into the warning's \<^verbatim>\<open>missing_fields\<close>. The result is the payload of the warning,
  \<open>None\<close> when no warning is logged.
\<close>

definition report_missing :: "loop_state \<Rightarrow> pyerr + string option list option" where
  "report_missing st =
     (case snd st of
        None \<Rightarrow> Inl NameError
      | Some r \<Rightarrow> Inr (if r \<noteq> [] then Some r else None))"

definition process_fields_from :: "loop_state \<Rightarrow> config \<Rightarrow> page \<Rightarrow> string \<Rightarrow> field_info list \<Rightarrow> pyerr + string option list option" where
  "process_fields_from st cfg pg resume_path form_fields =
     and_then (field_loop cfg pg resume_path form_fields st) report_missing"

text \<open>
  The flow as written: nothing assigns \<^verbatim>\<open>analysis\<close> before the loop reads it, and
  nothing in the method or the module binds \<^verbatim>\<open>required_fields\<close>. An exception reaches
  the handler of the flow, which logs it, takes a screenshot and raises it again.
\<close>

definition process_fields :: "config \<Rightarrow> page \<Rightarrow> string \<Rightarrow> field_info list \<Rightarrow> pyerr + string option list option" where
  "process_fields cfg pg resume_path form_fields =
     process_fields_from (None, None) cfg pg resume_path form_fields"

section \<open>The application history\<close>

text \<open>
  The names the module \<^verbatim>\<open>test_application_flow.py\<close> binds: its imports, classes,
  functions and the logger. A global name that is neither here nor a builtin is a NameError
  where it is read.
\<close>

definition module_globals :: "string list" where
  "module_globals =
     [''sync_playwright'', ''OllamaLLM'', ''Tool'', ''ConversationBufferMemory'',
      ''PromptTemplate'', ''StrOutputParser'', ''yaml'', ''Path'', ''logging'', ''os'',
      ''requests'', ''json'', ''Dict'', ''Any'', ''AntiBotHandler'', ''LeverJobAnalyzer'',
      ''LeverNavigator'', ''StructuredFormatter'', ''setup_logging'', ''logger'',
      ''check_requirements'', ''SmartApplicationAgent'']"

definition lookup_global :: "string list \<Rightarrow> string \<Rightarrow> pyerr + unit" where
  "lookup_global globals n = (if n \<in> set globals then Inr () else Inl NameError)"

record ('j, 'a) application_record =
  job_details :: 'j
  analysis :: 'a
  cover_letter :: string
  timestamp :: string
  status :: string

text \<open>
  What \<^verbatim>\<open>application_history.json\<close> holds: text that \<^verbatim>\<open>json.load\<close> rejects (an empty
  file is one), a JSON array of records, or another JSON document. The store is \<open>None\<close>
  while the file does not exist.
\<close>

datatype 'r stored = NotJSON | JList "'r list" | JOther

type_synonym ('j, 'a) history_store = "('j, 'a) application_record stored option"

definition load_history :: "'r stored option \<Rightarrow> pyerr + 'r list" where
  "load_history store =
     (case store of
        None \<Rightarrow> Inr []
      | Some NotJSON \<Rightarrow> Inl JSONDecodeError
      | Some (JList xs) \<Rightarrow> Inr xs
      | Some JOther \<Rightarrow> Inl AttributeError)"

text \<open>
  \<^verbatim>\<open>_save_application_details\<close> in a module with the given global names; \<open>now\<close> is what
  \<^verbatim>\<open>datetime.now().isoformat()\<close> would give. The record is built first, then the file is
  read, appended to and written back; any exception is logged and the store stays as it was.
\<close>

definition save_body :: "string list \<Rightarrow> string \<Rightarrow> ('j, 'a) history_store \<Rightarrow> 'j \<Rightarrow> 'a \<Rightarrow> string \<Rightarrow> pyerr + ('j, 'a) history_store" where
  "save_body globals now store jd an cl =
     and_then (lookup_global globals ''datetime'') (\<lambda>_.
       (let application_record =
              \<lparr>job_details = jd, analysis = an, cover_letter = cl,
               timestamp = now, status = ''attempted''\<rparr>
        in and_then (load_history store) (\<lambda>existing_history.
             Inr (Some (JList (existing_history @ [application_record]))))))"

definition save_application_details_in :: "string list \<Rightarrow> string \<Rightarrow> ('j, 'a) history_store \<Rightarrow> 'j \<Rightarrow> 'a \<Rightarrow> string \<Rightarrow> ('j, 'a) history_store" where
  "save_application_details_in globals now store jd an cl =
     (case save_body globals now store jd an cl of Inl e \<Rightarrow> store | Inr store' \<Rightarrow> store')"

definition save_application_details :: "string \<Rightarrow> ('j, 'a) history_store \<Rightarrow> 'j \<Rightarrow> 'a \<Rightarrow> string \<Rightarrow> ('j, 'a) history_store" where
  "save_application_details now store jd an cl =
     save_application_details_in module_globals now store jd an cl"

text \<open>Reading the store back: the records in file order, when the file holds an array.\<close>

definition read_back :: "'r stored option \<Rightarrow> 'r list option" where
  "read_back store = (case store of Some (JList xs) \<Rightarrow> Some xs | _ \<Rightarrow> None)"

section \<open>Notions the properties are stated with\<close>

subsection \<open>The priority table of the specification\<close>

text \<open>
  The lookup as the specification words it: a fixed table, in priority order, of the keys
  looked for in the lower-cased field name and of what each stands for; the first entry
  with a matching key decides, and a failed getter means that no value was found. This
  is the second description that \<^verbatim>\<open>_get_field_value_from_config\<close> is compared with.
\<close>

definition full_name :: "config \<Rightarrow> pyerr + pyval" where
  "full_name cfg =
     and_then (personal cfg ''name'') (\<lambda>n.
     and_then (personal cfg ''surname'') (\<lambda>s. Inr (PStr (py_str n @ '' '' @ py_str s))))"

definition city_and_country :: "config \<Rightarrow> pyerr + pyval" where
  "city_and_country cfg =
     and_then (personal cfg ''city'') (\<lambda>c.
     and_then (personal cfg ''country'') (\<lambda>k. Inr (PStr (py_str c @ '', '' @ py_str k))))"

definition most_recent_employer :: "config \<Rightarrow> pyerr + pyval" where
  "most_recent_employer cfg =
     and_then (section_of (experience_details cfg)) (\<lambda>es.
     and_then (index0 es) (\<lambda>e. section_of (company e)))"

definition cover_letter_text :: "config \<Rightarrow> pyerr + pyval" where
  "cover_letter_text cfg =
     (case generate_cover_letter cfg of Inl e \<Rightarrow> Inl e | Inr t \<Rightarrow> Inr (PStr t))"

definition spec_priority_table :: "(string list \<times> (config \<Rightarrow> pyerr + pyval)) list" where
  "spec_priority_table =
     [([''name''], full_name),
      ([''email''], \<lambda>cfg. personal cfg ''email''),
      ([''phone''], \<lambda>cfg. personal cfg ''phone''),
      ([''location''], city_and_country),
      ([''company'', ''org''], most_recent_employer),
      ([''linkedin''], \<lambda>cfg. personal cfg ''linkedin''),
      ([''github''], \<lambda>cfg. personal cfg ''github''),
      ([''portfolio'', ''website''], \<lambda>cfg. personal cfg ''website''),
      ([''comments'', ''cover''], cover_letter_text)]"

definition spec_first_match :: "string \<Rightarrow> (string list \<times> (config \<Rightarrow> pyerr + pyval)) option" where
  "spec_first_match field_name =
     find (\<lambda>entry. list_ex (\<lambda>k. py_in k (lower field_name)) (fst entry)) spec_priority_table"

definition spec_lookup :: "config \<Rightarrow> string \<Rightarrow> pyval" where
  "spec_lookup cfg field_name =
     (case spec_first_match field_name of
        None \<Rightarrow> PNone
      | Some entry \<Rightarrow> (case snd entry cfg of Inl e \<Rightarrow> PNone | Inr v \<Rightarrow> v))"

subsection \<open>The line of a text that a decision gives back\<close>


subsection \<open>Selectors on a page\<close>

text \<open>A selector resolves when counting its elements succeeds and gives at least one.\<close>

definition resolves :: "page \<Rightarrow> string \<Rightarrow> bool" where
  "resolves pg sel = (case locator_count pg sel of Inl e \<Rightarrow> False | Inr n \<Rightarrow> n > 0)"

text \<open>It attaches when it resolves and neither the attach nor the wait after it raises.\<close>

definition attaches :: "page \<Rightarrow> string \<Rightarrow> string \<Rightarrow> bool" where
  "attaches pg file_path sel =
     (resolves pg sel \<and> succeeded (set_input_files pg sel file_path)
      \<and> succeeded (wait_for_timeout pg 1000))"

text \<open>What one attempt on a selector asks of the browser.\<close>

definition attempt_events :: "page \<Rightarrow> string \<Rightarrow> string \<Rightarrow> event list" where
  "attempt_events pg file_path sel =
     (if resolves pg sel then
        (if succeeded (set_input_files pg sel file_path)
         then [Locate sel, SetInputFiles sel file_path, WaitForTimeout 1000]
         else [Locate sel, SetInputFiles sel file_path])
      else [Locate sel])"

text \<open>The selectors up to and including the first that attaches; all of them when none does.\<close>

definition tried :: "page \<Rightarrow> string \<Rightarrow> string list \<Rightarrow> string list" where
  "tried pg file_path sels =
     take (Suc (length (takeWhile (\<lambda>s. \<not> attaches pg file_path s) sels))) sels"


subsection \<open>Fields that belong in the missing-required report\<close>

text \<open>
  The decision on the field is ALERT, or the field is required and the execution of its
  FILL or UPLOAD decision failed.
\<close>

definition needs_report :: "config \<Rightarrow> page \<Rightarrow> string \<Rightarrow> field_info \<Rightarrow> bool" where
  "needs_report cfg pg resume_path field =
     (let decision = analyze_field cfg field; action = action_of decision in
      action = Some ''ALERT''
      \<or> (required field
          \<and> (action = Some ''FILL'' \<and> \<not> fill_field pg field decision
              \<or> action = Some ''UPLOAD'' \<and> \<not> fst (upload_resume pg resume_path))))"

section \<open>Reading a decision back\<close>

lemma split_from_nonempty: "split_from sep skip cur t \<noteq> []"
  by (induction sep skip cur t rule: split_from.induct) auto

lemma split_from_nth0: "split_from sep skip cur t ! 0 = hd (split_from sep skip cur t)"
  by (simp add: hd_conv_nth split_from_nonempty)

text \<open>The first piece of a split starts with what has been collected so far.\<close>

lemma split_from_hd: "\<exists>ys. hd (split_from sep [] cur t) = rev cur @ ys"
proof (induction t arbitrary: cur)
  case Nil
  show ?case by simp
next
  case (Cons a t)
  show ?case
  proof (cases "prefix sep (a # t)")
    case True
    then show ?thesis by simp
  next
    case False
    from Cons.IH[of "a # cur"] obtain ys
      where "hd (split_from sep [] (a # cur) t) = rev (a # cur) @ ys" by blast
    with False show ?thesis by simp
  qed
qed

lemma action_fill: "action_of (''ACTION: FILL'' @ NL # rest) = Some ''FILL''"
proof -
  obtain ys where ys:
    "hd (split_from ''ACTION:'' [] (rev ('' FILL'' @ [NL])) rest) = '' FILL'' @ NL # ys"
    using split_from_hd[of "''ACTION:''" "rev ('' FILL'' @ [NL])" rest] by auto
  have "py_split ''ACTION:'' (''ACTION: FILL'' @ NL # rest) ! 1 = '' FILL'' @ NL # ys"
    using ys by (simp add: py_split_def split_from_nth0)
  then show ?thesis
    by (simp add: action_of_def py_in_def sublist_code(3) py_split_def py_strip_def py_isspace_def)
qed

lemma action_skip: "action_of (''ACTION: SKIP'' @ NL # rest) = Some ''SKIP''"
proof -
  obtain ys where ys:
    "hd (split_from ''ACTION:'' [] (rev ('' SKIP'' @ [NL])) rest) = '' SKIP'' @ NL # ys"
    using split_from_hd[of "''ACTION:''" "rev ('' SKIP'' @ [NL])" rest] by auto
  have "py_split ''ACTION:'' (''ACTION: SKIP'' @ NL # rest) ! 1 = '' SKIP'' @ NL # ys"
    using ys by (simp add: py_split_def split_from_nth0)
  then show ?thesis
    by (simp add: action_of_def py_in_def sublist_code(3) py_split_def py_strip_def py_isspace_def)
qed

lemma action_upload: "action_of (''ACTION: UPLOAD'' @ NL # rest) = Some ''UPLOAD''"
proof -
  obtain ys where ys:
    "hd (split_from ''ACTION:'' [] (rev ('' UPLOAD'' @ [NL])) rest) = '' UPLOAD'' @ NL # ys"
    using split_from_hd[of "''ACTION:''" "rev ('' UPLOAD'' @ [NL])" rest] by auto
  have "py_split ''ACTION:'' (''ACTION: UPLOAD'' @ NL # rest) ! 1 = '' UPLOAD'' @ NL # ys"
    using ys by (simp add: py_split_def split_from_nth0)
  then show ?thesis
    by (simp add: action_of_def py_in_def sublist_code(3) py_split_def py_strip_def py_isspace_def)
qed

lemma action_alert: "action_of (''ACTION: ALERT'' @ NL # rest) = Some ''ALERT''"
proof -
  obtain ys where ys:
    "hd (split_from ''ACTION:'' [] (rev ('' ALERT'' @ [NL])) rest) = '' ALERT'' @ NL # ys"
    using split_from_hd[of "''ACTION:''" "rev ('' ALERT'' @ [NL])" rest] by auto
  have "py_split ''ACTION:'' (''ACTION: ALERT'' @ NL # rest) ! 1 = '' ALERT'' @ NL # ys"
    using ys by (simp add: py_split_def split_from_nth0)
  then show ?thesis
    by (simp add: action_of_def py_in_def sublist_code(3) py_split_def py_strip_def py_isspace_def)
qed

lemma action_fill_with: "action_of (fill_with v r) = Some ''FILL''"
  using action_fill[of "''VALUE: '' @ py_str v @ [NL] @ ''REASON: '' @ r"]
  by (simp add: fill_with_def)

lemma action_hidden_skip: "action_of hidden_skip = Some ''SKIP''"
  using action_skip[of "''REASON: Hidden field''"] by (simp add: hidden_skip_def)

lemma action_unknown_file_skip: "action_of unknown_file_skip = Some ''SKIP''"
  using action_skip[of "''REASON: Unknown file upload''"] by (simp add: unknown_file_skip_def)

lemma action_optional_skip: "action_of optional_skip = Some ''SKIP''"
  using action_skip[of "''REASON: Optional field without data''"] by (simp add: optional_skip_def)

lemma action_error_skip: "action_of error_skip = Some ''SKIP''"
  using action_skip[of "''REASON: Error in analysis''"] by (simp add: error_skip_def)

lemma action_resume_upload: "action_of resume_upload = Some ''UPLOAD''"
  using action_upload[of "''VALUE: resume.pdf'' @ [NL] @ ''REASON: Resume upload field''"]
  by (simp add: resume_upload_def)

lemma action_required_alert: "action_of required_alert = Some ''ALERT''"
  using action_alert[of "''REASON: Required field needs value''"] by (simp add: required_alert_def)

lemmas action_simps = action_fill_with action_hidden_skip action_unknown_file_skip
  action_optional_skip action_error_skip action_resume_upload action_required_alert








lemma lower_simps: "lower [] = []" "lower (c # cs) = lower_char c # lower cs"
  by (simp_all add: lower_def)



section \<open>Field analysis: the decisions\<close>

text \<open>The texts \<^verbatim>\<open>_analyze_field\<close> can return, and when it fills.\<close>

lemma analyze_field_cases:
  "analyze_field cfg f \<in> {hidden_skip, resume_upload, unknown_file_skip, required_alert,
                           optional_skip, error_skip}
   \<or> (\<exists>r. py_truthy (get_field_value_from_config cfg (name f) (ftype f))
          \<and> ftype f \<noteq> Some ''hidden'' \<and> ftype f \<noteq> Some ''file''
          \<and> analyze_field cfg f = fill_with (get_field_value_from_config cfg (name f) (ftype f)) r)"
  by (auto simp: analyze_field_def analyze_field_body_def Let_def split: option.splits)




text \<open>
  Claim C6. A field of type \<^verbatim>\<open>hidden\<close> is decided SKIP with the reason "Hidden field",
  whatever its \<^verbatim>\<open>required\<close> flag, its name and the profile are: the decision is a constant
  that depends on none of them, so no lookup takes part in it.
\<close>

theorem hidden_field_skipped:
  "ftype f = Some ''hidden'' \<Longrightarrow>
     analyze_field cfg f = hidden_skip \<and> action_of (analyze_field cfg f) = Some ''SKIP''"
  by (simp add: analyze_field_def analyze_field_body_def action_hidden_skip)

theorem hidden_field_skipped_witness:
  "analyze_field
     \<lparr>personal_information = Some [''email'' \<mapsto> PStr ''ada@example.org''],
      experience_details = None, skills = None\<rparr>
     \<lparr>name = Some ''email'', ftype = Some ''hidden'', required = True,
      placeholder = None, selector = ''#email''\<rparr>
   = ''ACTION: SKIP'' @ [NL] @ ''REASON: Hidden field''"
  using hidden_field_skipped[of "\<lparr>name = Some ''email'', ftype = Some ''hidden'', required = True,
      placeholder = None, selector = ''#email''\<rparr>"
     "\<lparr>personal_information = Some [''email'' \<mapsto> PStr ''ada@example.org''],
      experience_details = None, skills = None\<rparr>"]
  by (simp add: hidden_skip_def)

text \<open>
  Claim C10. \<^verbatim>\<open>_analyze_field\<close> always returns a decision. Its \<^verbatim>\<open>try\<close> block raises
  exactly for a file field without a name attribute (\<^verbatim>\<open>None.lower()\<close>); whatever the
  block raises, the handler turns into SKIP with the reason "Error in analysis", also for a
  required field; and when the block returns, its decision is the result.
\<close>

theorem analyze_field_total:
  "((\<exists>e. analyze_field_body cfg f = Inl e) \<longleftrightarrow> (ftype f = Some ''file'' \<and> name f = None))
   \<and> (\<forall>e. analyze_field_body cfg f = Inl e \<longrightarrow>
         analyze_field cfg f = error_skip \<and> action_of (analyze_field cfg f) = Some ''SKIP'')
   \<and> (\<forall>a. analyze_field_body cfg f = Inr a \<longrightarrow> analyze_field cfg f = a)"
  by (auto simp: analyze_field_def analyze_field_body_def Let_def action_error_skip
      split: option.splits if_splits)

theorem analyze_field_total_witness:
  "analyze_field_body
     \<lparr>personal_information = None, experience_details = None, skills = None\<rparr>
     \<lparr>name = None, ftype = Some ''file'', required = True, placeholder = None,
      selector = ''input[type='file']''\<rparr> = Inl AttributeError
   \<and> analyze_field
     \<lparr>personal_information = None, experience_details = None, skills = None\<rparr>
     \<lparr>name = None, ftype = Some ''file'', required = True, placeholder = None,
      selector = ''input[type='file']''\<rparr>
     = ''ACTION: SKIP'' @ [NL] @ ''REASON: Error in analysis''"
proof -
  let ?c = "\<lparr>personal_information = None, experience_details = None, skills = None\<rparr>"
  let ?f = "\<lparr>name = None, ftype = Some ''file'', required = True, placeholder = None,
      selector = ''input[type='file']''\<rparr>"
  have b: "analyze_field_body ?c ?f = Inl AttributeError"
    by (simp add: analyze_field_body_def)
  with analyze_field_total[of ?c ?f] have "analyze_field ?c ?f = error_skip" by blast
  with b show ?thesis by (simp add: error_skip_def)
qed

text \<open>
  A file field that has a name: UPLOAD of \<^verbatim>\<open>resume.pdf\<close> when the lower-cased name contains
  \<^verbatim>\<open>resume\<close> or \<^verbatim>\<open>cv\<close>, SKIP with the reason "Unknown file upload" otherwise.
\<close>

lemma named_file_field:
  "ftype f = Some ''file'' \<Longrightarrow> name f = Some n \<Longrightarrow>
     analyze_field cfg f =
       (if py_in ''resume'' (lower n) \<or> py_in ''cv'' (lower n) then resume_upload
        else unknown_file_skip)"
  by (simp add: analyze_field_def analyze_field_body_def)

text \<open>
  Claim C5, where the code departs from it. A file input without a name attribute has the
  name \<^verbatim>\<open>None\<close>; the name test raises, and the decision is SKIP with the reason "Error in
  analysis", not "Unknown file upload". \<^verbatim>\<open>_should_upload_resume\<close> makes the same test on
  \<^verbatim>\<open>(field.get('name') or '')\<close>.
\<close>

theorem unnamed_file_field_error:
  "analyze_field cfg \<lparr>name = None, ftype = Some ''file'', required = r, placeholder = p,
      selector = s\<rparr> = error_skip
   \<and> error_skip \<noteq> unknown_file_skip"
  by (simp add: analyze_field_def analyze_field_body_def error_skip_def unknown_file_skip_def)

section \<open>Direct profile lookup\<close>

lemma body_table:
  "get_field_value_body cfg (Some raw) =
     (case spec_first_match raw of None \<Rightarrow> Inr PNone | Some entry \<Rightarrow> snd entry cfg)"
  by (simp add: get_field_value_body_def spec_first_match_def spec_priority_table_def Let_def
      full_name_def city_and_country_def most_recent_employer_def cover_letter_text_def)

lemma personal_KeyError:
  "(\<forall>d. personal_information cfg = Some d \<longrightarrow> d k = None) \<Longrightarrow> personal cfg k = Inl KeyError"
  by (cases "personal_information cfg")
     (simp_all add: personal_def section_of_def and_then_def getitem_def)

text \<open>
  Claim C7. For a field that has a name, \<^verbatim>\<open>_get_field_value_from_config\<close> is the lookup
  in the priority table name, email, phone, location, company/org, linkedin, github,
  portfolio/website, comments/cover on the lower-cased name, the first matching entry
  deciding. Whatever the lookup raises ends as \<^verbatim>\<open>None\<close>, no value found; in particular
  the KeyError of a profile without an \<^verbatim>\<open>email\<close> key, for a field that asks for the email.
\<close>

theorem profile_lookup_priority:
  "get_field_value_from_config cfg (Some raw) ty = spec_lookup cfg raw
   \<and> (\<forall>e. get_field_value_body cfg (Some raw) = Inl e \<longrightarrow>
         get_field_value_from_config cfg (Some raw) ty = PNone)
   \<and> ((\<forall>d. personal_information cfg = Some d \<longrightarrow> d ''email'' = None)
        \<and> py_in ''email'' (lower raw) \<and> \<not> py_in ''name'' (lower raw) \<longrightarrow>
        get_field_value_body cfg (Some raw) = Inl KeyError
        \<and> get_field_value_from_config cfg (Some raw) ty = PNone)"
proof (intro conjI allI impI)
  show "get_field_value_from_config cfg (Some raw) ty = spec_lookup cfg raw"
    by (simp add: get_field_value_from_config_def spec_lookup_def body_table
        split: option.splits sum.splits)
next
  fix e assume "get_field_value_body cfg (Some raw) = Inl e"
  then show "get_field_value_from_config cfg (Some raw) ty = PNone"
    by (simp add: get_field_value_from_config_def)
next
  assume a: "(\<forall>d. personal_information cfg = Some d \<longrightarrow> d ''email'' = None)
        \<and> py_in ''email'' (lower raw) \<and> \<not> py_in ''name'' (lower raw)"
  then have "personal cfg ''email'' = Inl KeyError" by (simp add: personal_KeyError)
  with a show b: "get_field_value_body cfg (Some raw) = Inl KeyError"
    by (simp add: get_field_value_body_def Let_def)
  then show "get_field_value_from_config cfg (Some raw) ty = PNone"
    by (simp add: get_field_value_from_config_def)
qed

text \<open>
  The field \<^verbatim>\<open>Company_Name\<close> matches both \<^verbatim>\<open>name\<close> and \<^verbatim>\<open>company\<close>; the earlier key
  decides and the value is the full name. The field \<^verbatim>\<open>Work Email\<close> with a profile that
  has no \<^verbatim>\<open>email\<close> key: the KeyError is caught and no value is found.
\<close>

theorem profile_lookup_priority_witness:
  "get_field_value_from_config
      \<lparr>personal_information = Some [''name'' \<mapsto> PStr ''Ada'', ''surname'' \<mapsto> PStr ''Lovelace''],
       experience_details =
         Some [\<lparr>position = None, company = Some (PStr ''Analytical Engines''),
                key_responsibilities = None\<rparr>],
       skills = None\<rparr> (Some ''Company_Name'') (Some ''text'') = PStr ''Ada Lovelace''
   \<and> get_field_value_body
      \<lparr>personal_information = Some [''name'' \<mapsto> PStr ''Ada'', ''surname'' \<mapsto> PStr ''Lovelace''],
       experience_details = None, skills = None\<rparr> (Some ''Work Email'') = Inl KeyError
   \<and> get_field_value_from_config
      \<lparr>personal_information = Some [''name'' \<mapsto> PStr ''Ada'', ''surname'' \<mapsto> PStr ''Lovelace''],
       experience_details = None, skills = None\<rparr> (Some ''Work Email'') (Some ''email'') = PNone"
proof -
  let ?ada = "\<lparr>personal_information =
                 Some [''name'' \<mapsto> PStr ''Ada'', ''surname'' \<mapsto> PStr ''Lovelace''],
       experience_details =
         Some [\<lparr>position = None, company = Some (PStr ''Analytical Engines''),
                key_responsibilities = None\<rparr>],
       skills = None\<rparr>"
  let ?bare = "\<lparr>personal_information =
                 Some [''name'' \<mapsto> PStr ''Ada'', ''surname'' \<mapsto> PStr ''Lovelace''],
       experience_details = None, skills = None\<rparr>"
  have m: "spec_first_match ''Company_Name'' = Some ([''name''], full_name)"
    by (simp add: spec_first_match_def spec_priority_table_def py_in_def sublist_code(3)
        lower_simps lower_char_def)
  have "spec_lookup ?ada ''Company_Name'' = PStr ''Ada Lovelace''"
    by (simp add: spec_lookup_def m full_name_def personal_def section_of_def getitem_def
        and_then_def)
  with profile_lookup_priority[of ?ada "''Company_Name''" "Some ''text''"]
  have 1: "get_field_value_from_config ?ada (Some ''Company_Name'') (Some ''text'')
             = PStr ''Ada Lovelace''"
    by simp
  have h: "(\<forall>d. personal_information ?bare = Some d \<longrightarrow> d ''email'' = None)
        \<and> py_in ''email'' (lower ''Work Email'') \<and> \<not> py_in ''name'' (lower ''Work Email'')"
    by (simp add: py_in_def sublist_code(3) lower_simps lower_char_def)
  with profile_lookup_priority[of ?bare "''Work Email''" "Some ''email''"]
  have 2: "get_field_value_body ?bare (Some ''Work Email'') = Inl KeyError
        \<and> get_field_value_from_config ?bare (Some ''Work Email'') (Some ''email'') = PNone"
    by blast
  from 1 2 show ?thesis by blast
qed

section \<open>File upload\<close>

lemma tried_Cons:
  "tried pg p (s # ss) = (if attaches pg p s then [s] else s # tried pg p ss)"
  by (simp add: tried_def)

lemma try_upload_file_result:
  "try_upload_file pg p sels =
     (list_ex (attaches pg p) sels, concat (map (attempt_events pg p) (tried pg p sels)))"
proof (induction sels)
  case Nil
  show ?case by (simp add: tried_def)
next
  case (Cons s ss)
  show ?case
    by (cases "locator_count pg s"; cases "set_input_files pg s p";
        cases "wait_for_timeout pg 1000")
       (simp_all add: Cons.IH tried_Cons attaches_def resolves_def succeeded_def
          attempt_events_def)
qed

text \<open>On a page where no attach fails, attaching and resolving are the same.\<close>

lemma tried_when_attach_never_fails:
  "list_all (\<lambda>s. resolves pg s \<longrightarrow> attaches pg p s) sels \<Longrightarrow>
     tried pg p sels = take (Suc (length (takeWhile (\<lambda>s. \<not> resolves pg s) sels))) sels
     \<and> list_ex (attaches pg p) sels = list_ex (resolves pg) sels"
  by (induction sels) (auto simp: tried_Cons attaches_def tried_def)

text \<open>
  Claim C4. An UPLOAD decision is executed by \<^verbatim>\<open>_upload_resume\<close>, which runs
  \<^verbatim>\<open>_try_upload_file\<close> on the five resume selectors. The loop works through its selectors
  in list order: what it asks of the browser is, attempt after attempt, the attempts on a
  prefix of the list. It returns success exactly when some selector resolves and its attach
  goes through; the prefix then ends with the first such selector, on which the attach was
  made, and no later selector is touched. When every selector fails to resolve or fails in
  its attach, all were tried and the result is failure. A selector that resolves but whose
  attach raises counts as failed: the exception is logged and the next selector is tried.
  Where no attach fails, the selector used is the first that resolves. The same holds of
  \<^verbatim>\<open>_upload_resume\<close> with its own list; when none of the five resolves it has located the
  five, in their order, and returns failure.
\<close>

theorem try_upload_file_in_order:
  "fst (try_upload_file pg p sels) = list_ex (attaches pg p) sels
   \<and> snd (try_upload_file pg p sels) = concat (map (attempt_events pg p) (tried pg p sels))
   \<and> prefix (tried pg p sels) sels
   \<and> (fst (try_upload_file pg p sels) \<longrightarrow>
        attaches pg p (last (tried pg p sels))
        \<and> list_all (\<lambda>s. \<not> attaches pg p s) (butlast (tried pg p sels)))
   \<and> (\<not> fst (try_upload_file pg p sels) \<longrightarrow> tried pg p sels = sels)
   \<and> (list_all (\<lambda>s. resolves pg s \<longrightarrow> attaches pg p s) sels \<longrightarrow>
        fst (try_upload_file pg p sels) = list_ex (resolves pg) sels
        \<and> tried pg p sels = take (Suc (length (takeWhile (\<lambda>s. \<not> resolves pg s) sels))) sels)
   \<and> fst (upload_resume pg p) = list_ex (attaches pg p) resume_selectors
   \<and> snd (upload_resume pg p)
        = concat (map (attempt_events pg p) (tried pg p resume_selectors))
   \<and> (\<not> list_ex (resolves pg) resume_selectors \<longrightarrow>
        upload_resume pg p =
          (False, map Locate
             [''input[name='resume']'',
              ''input[type='file'][name*='resume' i]'',
              ''input[type='file'][accept='.pdf']'',
              ''input[type='file'][name*='cv' i]'',
              ''input[type='file']'']))"
proof -
  have pre: "prefix (tried pg p sels) sels"
    by (simp add: tried_def take_is_prefix)
  have ok: "list_ex (attaches pg p) sels \<Longrightarrow>
      attaches pg p (last (tried pg p sels))
      \<and> list_all (\<lambda>s. \<not> attaches pg p s) (butlast (tried pg p sels))"
    by (induction sels) (auto simp: tried_Cons tried_def)
  have no: "\<not> list_ex (attaches pg p) sels \<Longrightarrow> tried pg p sels = sels"
    by (induction sels) (auto simp: tried_Cons tried_def)
  have general: "fst (try_upload_file pg p sels) = list_ex (attaches pg p) sels
   \<and> snd (try_upload_file pg p sels) = concat (map (attempt_events pg p) (tried pg p sels))
   \<and> prefix (tried pg p sels) sels
   \<and> (fst (try_upload_file pg p sels) \<longrightarrow>
        attaches pg p (last (tried pg p sels))
        \<and> list_all (\<lambda>s. \<not> attaches pg p s) (butlast (tried pg p sels)))
   \<and> (\<not> fst (try_upload_file pg p sels) \<longrightarrow> tried pg p sels = sels)
   \<and> (list_all (\<lambda>s. resolves pg s \<longrightarrow> attaches pg p s) sels \<longrightarrow>
        fst (try_upload_file pg p sels) = list_ex (resolves pg) sels
        \<and> tried pg p sels = take (Suc (length (takeWhile (\<lambda>s. \<not> resolves pg s) sels))) sels)"
    using pre ok no tried_when_attach_never_fails[of pg p sels]
    by (simp add: try_upload_file_result)
  have r1: "fst (upload_resume pg p) = list_ex (attaches pg p) resume_selectors"
    by (simp add: upload_resume_def try_upload_file_result)
  have r2: "snd (upload_resume pg p)
        = concat (map (attempt_events pg p) (tried pg p resume_selectors))"
    by (simp add: upload_resume_def try_upload_file_result)
  have r3: "\<not> list_ex (resolves pg) resume_selectors \<Longrightarrow>
        upload_resume pg p =
          (False, map Locate
             [''input[name='resume']'',
              ''input[type='file'][name*='resume' i]'',
              ''input[type='file'][accept='.pdf']'',
              ''input[type='file'][name*='cv' i]'',
              ''input[type='file']''])"
    by (simp add: upload_resume_def try_upload_file_result resume_selectors_def attaches_def
        tried_def attempt_events_def)
  from general r1 r2 r3 show ?thesis by blast
qed

text \<open>
  Selectors A, B, C, D. On a page where only C resolves, A and B are located in vain, C is
  located and attached to, D is never asked for. On a page where nothing resolves all four
  are located and the upload fails. On a page where locating A raises and the attach on B
  raises, C is the first selector to attach; D is again left alone. And the resume upload
  on a page that has one unnamed file input: the four selectors before the last are located
  in vain, the last one attaches.
\<close>

theorem try_upload_file_in_order_witness:
  "try_upload_file
     \<lparr>locator_count = (\<lambda>s. if s = ''C'' then Inr 1 else Inr 0),
      set_input_files = (\<lambda>s p. Inr ()), wait_for_timeout = (\<lambda>n. Inr ()),
      screenshot = (\<lambda>p. Inr ()), select_option = (\<lambda>s v. Inr ()),
      check = (\<lambda>s. Inr ()), fill = (\<lambda>s v. Inr ())\<rparr>
     ''resume.pdf'' [''A'', ''B'', ''C'', ''D'']
   = (True, [Locate ''A'', Locate ''B'', Locate ''C'', SetInputFiles ''C'' ''resume.pdf'',
             WaitForTimeout 1000])
   \<and> try_upload_file
     \<lparr>locator_count = (\<lambda>s. Inr 0),
      set_input_files = (\<lambda>s p. Inr ()), wait_for_timeout = (\<lambda>n. Inr ()),
      screenshot = (\<lambda>p. Inr ()), select_option = (\<lambda>s v. Inr ()),
      check = (\<lambda>s. Inr ()), fill = (\<lambda>s v. Inr ())\<rparr>
     ''resume.pdf'' [''A'', ''B'', ''C'', ''D'']
   = (False, [Locate ''A'', Locate ''B'', Locate ''C'', Locate ''D''])
   \<and> try_upload_file
     \<lparr>locator_count = (\<lambda>s. if s = ''A'' then Inl BrowserError else Inr 1),
      set_input_files = (\<lambda>s p. if s = ''B'' then Inl BrowserError else Inr ()),
      wait_for_timeout = (\<lambda>n. Inr ()),
      screenshot = (\<lambda>p. Inr ()), select_option = (\<lambda>s v. Inr ()),
      check = (\<lambda>s. Inr ()), fill = (\<lambda>s v. Inr ())\<rparr>
     ''resume.pdf'' [''A'', ''B'', ''C'', ''D'']
   = (True, [Locate ''A'', Locate ''B'', SetInputFiles ''B'' ''resume.pdf'',
             Locate ''C'', SetInputFiles ''C'' ''resume.pdf'', WaitForTimeout 1000])
   \<and> upload_resume
     \<lparr>locator_count = (\<lambda>s. if s = ''input[type='file']'' then Inr 1 else Inr 0),
      set_input_files = (\<lambda>s p. Inr ()), wait_for_timeout = (\<lambda>n. Inr ()),
      screenshot = (\<lambda>p. Inr ()), select_option = (\<lambda>s v. Inr ()),
      check = (\<lambda>s. Inr ()), fill = (\<lambda>s v. Inr ())\<rparr>
     ''resume.pdf''
   = (True, [Locate ''input[name='resume']'',
             Locate ''input[type='file'][name*='resume' i]'',
             Locate ''input[type='file'][accept='.pdf']'',
             Locate ''input[type='file'][name*='cv' i]'',
             Locate ''input[type='file']'',
             SetInputFiles ''input[type='file']'' ''resume.pdf'',
             WaitForTimeout 1000])"
proof -
  let ?only_c = "\<lparr>locator_count = (\<lambda>s. if s = ''C'' then Inr 1 else Inr 0),
      set_input_files = (\<lambda>s p. Inr ()), wait_for_timeout = (\<lambda>n. Inr ()),
      screenshot = (\<lambda>p. Inr ()), select_option = (\<lambda>s v. Inr ()),
      check = (\<lambda>s. Inr ()), fill = (\<lambda>s v. Inr ())\<rparr>"
  let ?blank = "\<lparr>locator_count = (\<lambda>s. Inr 0),
      set_input_files = (\<lambda>s p. Inr ()), wait_for_timeout = (\<lambda>n. Inr ()),
      screenshot = (\<lambda>p. Inr ()), select_option = (\<lambda>s v. Inr ()),
      check = (\<lambda>s. Inr ()), fill = (\<lambda>s v. Inr ())\<rparr>"
  let ?flaky = "\<lparr>locator_count = (\<lambda>s. if s = ''A'' then Inl BrowserError else Inr 1),
      set_input_files = (\<lambda>s p. if s = ''B'' then Inl BrowserError else Inr ()),
      wait_for_timeout = (\<lambda>n. Inr ()),
      screenshot = (\<lambda>p. Inr ()), select_option = (\<lambda>s v. Inr ()),
      check = (\<lambda>s. Inr ()), fill = (\<lambda>s v. Inr ())\<rparr>"
  let ?sels = "[''A'', ''B'', ''C'', ''D'']"
  have t: "tried ?only_c ''resume.pdf'' ?sels = [''A'', ''B'', ''C'']"
    by (simp add: tried_def attaches_def resolves_def succeeded_def)
  from try_upload_file_in_order[of ?only_c "''resume.pdf''" ?sels]
  have "fst (try_upload_file ?only_c ''resume.pdf'' ?sels) = True
      \<and> snd (try_upload_file ?only_c ''resume.pdf'' ?sels)
         = [Locate ''A'', Locate ''B'', Locate ''C'', SetInputFiles ''C'' ''resume.pdf'',
            WaitForTimeout 1000]"
    by (simp add: t attaches_def resolves_def succeeded_def attempt_events_def)
  then have 1: "try_upload_file ?only_c ''resume.pdf'' ?sels
      = (True, [Locate ''A'', Locate ''B'', Locate ''C'', SetInputFiles ''C'' ''resume.pdf'',
                WaitForTimeout 1000])"
    by (simp add: prod_eq_iff)
  have t0: "tried ?blank ''resume.pdf'' ?sels = ?sels"
    by (simp add: tried_def attaches_def resolves_def succeeded_def)
  from try_upload_file_in_order[of ?blank "''resume.pdf''" ?sels]
  have "fst (try_upload_file ?blank ''resume.pdf'' ?sels) = False
      \<and> snd (try_upload_file ?blank ''resume.pdf'' ?sels)
         = [Locate ''A'', Locate ''B'', Locate ''C'', Locate ''D'']"
    by (simp add: t0 attaches_def resolves_def succeeded_def attempt_events_def)
  then have 2: "try_upload_file ?blank ''resume.pdf'' ?sels
      = (False, [Locate ''A'', Locate ''B'', Locate ''C'', Locate ''D''])"
    by (simp add: prod_eq_iff)
  have tf: "tried ?flaky ''resume.pdf'' ?sels = [''A'', ''B'', ''C'']"
    by (simp add: tried_def attaches_def resolves_def succeeded_def)
  from try_upload_file_in_order[of ?flaky "''resume.pdf''" ?sels]
  have "fst (try_upload_file ?flaky ''resume.pdf'' ?sels) = True
      \<and> snd (try_upload_file ?flaky ''resume.pdf'' ?sels)
         = [Locate ''A'', Locate ''B'', SetInputFiles ''B'' ''resume.pdf'',
             Locate ''C'', SetInputFiles ''C'' ''resume.pdf'', WaitForTimeout 1000]"
    by (simp add: tf attaches_def resolves_def succeeded_def attempt_events_def)
  then have 3: "try_upload_file ?flaky ''resume.pdf'' ?sels
      = (True, [Locate ''A'', Locate ''B'', SetInputFiles ''B'' ''resume.pdf'',
             Locate ''C'', SetInputFiles ''C'' ''resume.pdf'', WaitForTimeout 1000])"
    by (simp add: prod_eq_iff)
  let ?last_only = "\<lparr>locator_count = (\<lambda>s. if s = ''input[type='file']'' then Inr 1 else Inr 0),
      set_input_files = (\<lambda>s p. Inr ()), wait_for_timeout = (\<lambda>n. Inr ()),
      screenshot = (\<lambda>p. Inr ()), select_option = (\<lambda>s v. Inr ()),
      check = (\<lambda>s. Inr ()), fill = (\<lambda>s v. Inr ())\<rparr>"
  have tr: "tried ?last_only ''resume.pdf'' resume_selectors = resume_selectors"
    by (simp add: tried_def attaches_def resolves_def succeeded_def resume_selectors_def)
  from try_upload_file_in_order[of ?last_only "''resume.pdf''" "[]"]
  have "fst (upload_resume ?last_only ''resume.pdf'') = True
      \<and> snd (upload_resume ?last_only ''resume.pdf'')
         = [Locate ''input[name='resume']'',
             Locate ''input[type='file'][name*='resume' i]'',
             Locate ''input[type='file'][accept='.pdf']'',
             Locate ''input[type='file'][name*='cv' i]'',
             Locate ''input[type='file']'',
             SetInputFiles ''input[type='file']'' ''resume.pdf'',
             WaitForTimeout 1000]"
    by (simp add: tr) (simp add: attaches_def resolves_def succeeded_def attempt_events_def
        resume_selectors_def)
  then have 4: "upload_resume ?last_only ''resume.pdf''
      = (True, [Locate ''input[name='resume']'',
             Locate ''input[type='file'][name*='resume' i]'',
             Locate ''input[type='file'][accept='.pdf']'',
             Locate ''input[type='file'][name*='cv' i]'',
             Locate ''input[type='file']'',
             SetInputFiles ''input[type='file']'' ''resume.pdf'',
             WaitForTimeout 1000])"
    by (simp add: prod_eq_iff)
  from 1 2 3 4 show ?thesis by blast
qed

section \<open>CAPTCHA handling\<close>



text \<open>
  When a selector of the table resolves and those before it count no element,
  \<^verbatim>\<open>handle_captcha\<close> goes into the manual resolution and returns its verdict.
\<close>

lemma scan_captcha_challenge:
  "list_all (\<lambda>s. locator_count pg s = Inr 0) before \<Longrightarrow> resolves pg sel \<Longrightarrow>
     scan_captcha pg human (before @ sel # after) =
       (fst (handle_manual_captcha pg human),
        map Locate (before @ [sel]) @ snd (handle_manual_captcha pg human))"
  by (induction before) (auto simp: resolves_def split_beta split: sum.splits)

lemma scan_captcha_clear:
  "list_all (\<lambda>s. \<not> resolves pg s) sels \<Longrightarrow>
     fst (scan_captcha pg human sels) = False
     \<and> (\<exists>n. snd (scan_captcha pg human sels) = map Locate (take n sels))"
proof (induction sels)
  case Nil
  show ?case by simp
next
  case (Cons s ss)
  then obtain n where n: "fst (scan_captcha pg human ss) = False"
    "snd (scan_captcha pg human ss) = map Locate (take n ss)"
    by auto
  show ?case
  proof (cases "locator_count pg s")
    case (Inl e)
    then have "scan_captcha pg human (s # ss) = (False, map Locate (take 1 (s # ss)))"
      by simp
    then show ?thesis by (metis fst_conv snd_conv)
  next
    case (Inr k)
    with Cons.prems have "k = 0" by (simp add: resolves_def)
    with Inr n have "scan_captcha pg human (s # ss) = (False, map Locate (take (Suc n) (s # ss)))"
      by (simp add: split_beta)
    then show ?thesis by (metis fst_conv snd_conv)
  qed
qed

lemma scan_captcha_ignores_console:
  "list_all (\<lambda>s. \<not> resolves pg s) sels \<Longrightarrow>
     scan_captcha pg human sels = scan_captcha pg human' sels"
  by (induction sels) (auto simp: resolves_def split: sum.splits)

text \<open>
  Claim C9. On a page where no selector of the challenge table resolves,
  \<^verbatim>\<open>handle_captcha\<close> returns \<^verbatim>\<open>False\<close>, no challenge, and all it asked of the browser
  were element counts: no screenshot was taken and the console was not waited on, so the
  result is the same whatever the console would have given.
\<close>

theorem no_challenge_no_blocking:
  "list_all (\<lambda>s. \<not> resolves pg s) (concat (map snd captcha_selectors)) \<Longrightarrow>
     fst (handle_captcha pg human) = False
     \<and> list_all (\<lambda>ev. case ev of Locate s \<Rightarrow> True | _ \<Rightarrow> False) (snd (handle_captcha pg human))
     \<and> Screenshot ''captcha.png'' \<notin> set (snd (handle_captcha pg human))
     \<and> Input captcha_prompt \<notin> set (snd (handle_captcha pg human))
     \<and> (\<forall>human'. handle_captcha pg human' = handle_captcha pg human)"
proof -
  assume a: "list_all (\<lambda>s. \<not> resolves pg s) (concat (map snd captcha_selectors))"
  from scan_captcha_clear[OF a, of human] obtain n where
    n: "fst (handle_captcha pg human) = False"
       "snd (handle_captcha pg human) = map Locate (take n (concat (map snd captcha_selectors)))"
    by (auto simp: handle_captcha_def)
  have "\<forall>human'. handle_captcha pg human' = handle_captcha pg human"
    using scan_captcha_ignores_console[OF a] by (simp add: handle_captcha_def)
  then show ?thesis using n by (auto simp: list_all_iff)
qed

text \<open>A page without any element: the seven selectors are counted, and that is all.\<close>

theorem no_challenge_no_blocking_witness:
  "handle_captcha
     \<lparr>locator_count = (\<lambda>s. Inr 0),
      set_input_files = (\<lambda>s p. Inr ()), wait_for_timeout = (\<lambda>n. Inr ()),
      screenshot = (\<lambda>p. Inr ()), select_option = (\<lambda>s v. Inr ()),
      check = (\<lambda>s. Inr ()), fill = (\<lambda>s v. Inr ())\<rparr> (Inl EOFError)
   = (False, map Locate
        [''iframe[title*='checkbox']'', ''#h-captcha'', ''.h-captcha'', ''iframe[src*='hcaptcha']'',
         ''iframe[src*='recaptcha']'', ''.g-recaptcha'', ''#recaptcha''])
   \<and> Input captcha_prompt \<notin> set (snd (handle_captcha
     \<lparr>locator_count = (\<lambda>s. Inr 0),
      set_input_files = (\<lambda>s p. Inr ()), wait_for_timeout = (\<lambda>n. Inr ()),
      screenshot = (\<lambda>p. Inr ()), select_option = (\<lambda>s v. Inr ()),
      check = (\<lambda>s. Inr ()), fill = (\<lambda>s v. Inr ())\<rparr> (Inl EOFError)))"
proof -
  let ?pg = "\<lparr>locator_count = (\<lambda>s. Inr 0),
      set_input_files = (\<lambda>s p. Inr ()), wait_for_timeout = (\<lambda>n. Inr ()),
      screenshot = (\<lambda>p. Inr ()), select_option = (\<lambda>s v. Inr ()),
      check = (\<lambda>s. Inr ()), fill = (\<lambda>s v. Inr ())\<rparr>"
  have "list_all (\<lambda>s. \<not> resolves ?pg s) (concat (map snd captcha_selectors))"
    by (simp add: captcha_selectors_def resolves_def)
  from no_challenge_no_blocking[OF this, of "Inl EOFError"]
  have "Input captcha_prompt \<notin> set (snd (handle_captcha ?pg (Inl EOFError)))" by blast
  moreover have "handle_captcha ?pg (Inl EOFError) = (False, map Locate
        [''iframe[title*='checkbox']'', ''#h-captcha'', ''.h-captcha'', ''iframe[src*='hcaptcha']'',
         ''iframe[src*='recaptcha']'', ''.g-recaptcha'', ''#recaptcha''])"
    by (simp add: handle_captcha_def captcha_selectors_def)
  ultimately show ?thesis by blast
qed

section \<open>The field loop\<close>

text \<open>
  Claim C2, where the code departs from it. The accumulator does not start empty: the
  name \<^verbatim>\<open>required_fields\<close> is never bound, and the loop reads \<^verbatim>\<open>analysis\<close> before its
  first assignment. With at least one form field the first pass of the loop raises
  UnboundLocalError; with none the report raises NameError. No name is accumulated and no
  warning is logged.
\<close>

theorem process_fields_raises:
  "process_fields cfg pg resume_path form_fields =
     Inl (if form_fields = [] then NameError else UnboundLocalError)"
  by (cases form_fields)
     (simp_all add: process_fields_def process_fields_from_def field_step_def report_missing_def
        and_then_def)

text \<open>
  The loop body itself accumulates as intended. For the decisions of \<^verbatim>\<open>_analyze_field\<close>
  the substring tests of the loop agree with the action read back.
\<close>

lemma fill_with_has_fill: "py_in ''ACTION: FILL'' (fill_with v r)"
  by (simp add: fill_with_def py_in_def sublist_code(3))

lemma dispatch_fill:
  "py_in ''ACTION: FILL'' (analyze_field cfg f) = (action_of (analyze_field cfg f) = Some ''FILL'')"
  using analyze_field_cases[of cfg f]
  apply (elim disjE exE conjE)
   apply simp
   apply (elim disjE)
        apply (simp_all add: action_simps fill_with_has_fill)
       apply (simp_all add: py_in_def sublist_code(3) hidden_skip_def resume_upload_def
      unknown_file_skip_def required_alert_def optional_skip_def error_skip_def)
  done

lemma not_fill_cases:
  "\<not> py_in ''ACTION: FILL'' (analyze_field cfg f) \<Longrightarrow>
     analyze_field cfg f \<in> {hidden_skip, resume_upload, unknown_file_skip, required_alert,
                            optional_skip, error_skip}"
  using analyze_field_cases[of cfg f] fill_with_has_fill by auto

lemma dispatch_upload:
  "\<not> py_in ''ACTION: FILL'' (analyze_field cfg f) \<Longrightarrow>
   py_in ''ACTION: UPLOAD'' (analyze_field cfg f)
     = (action_of (analyze_field cfg f) = Some ''UPLOAD'')"
  apply (drule not_fill_cases)
  apply simp
  apply (elim disjE)
       apply (simp_all add: action_simps)
       apply (simp_all add: py_in_def sublist_code(3) hidden_skip_def resume_upload_def
      unknown_file_skip_def required_alert_def optional_skip_def error_skip_def)
  done

lemma dispatch_alert:
  "\<not> py_in ''ACTION: FILL'' (analyze_field cfg f) \<Longrightarrow>
   py_in ''ACTION: ALERT'' (analyze_field cfg f)
     = (action_of (analyze_field cfg f) = Some ''ALERT'')"
  apply (drule not_fill_cases)
  apply simp
  apply (elim disjE)
       apply (simp_all add: action_simps)
       apply (simp_all add: py_in_def sublist_code(3) hidden_skip_def resume_upload_def
      unknown_file_skip_def required_alert_def optional_skip_def error_skip_def)
  done

lemma field_step_initialised:
  "field_step cfg pg p f (Some a, Some acc) =
     Inr (Some (analyze_field cfg f),
          Some (if needs_report cfg pg p f then acc @ [name f] else acc))"
proof (cases "py_in ''ACTION: FILL'' (analyze_field cfg f)")
  case True
  then show ?thesis
    using dispatch_fill[of cfg f]
    by (simp add: field_step_def needs_report_def Let_def append_required_def and_then_def)
next
  case False
  then show ?thesis
    using dispatch_fill[of cfg f] dispatch_upload[of cfg f] dispatch_alert[of cfg f]
    by (auto simp: field_step_def needs_report_def Let_def append_required_def and_then_def)
qed

lemma field_loop_initialised:
  "\<exists>a'. field_loop cfg pg p fs (Some a, Some acc) =
     Inr (Some a', Some (acc @ map name (filter (needs_report cfg pg p) fs)))"
proof (induction fs arbitrary: a acc)
  case Nil
  show ?case by simp
next
  case (Cons f fs)
  from Cons[of "analyze_field cfg f" "if needs_report cfg pg p f then acc @ [name f] else acc"]
  show ?case by (auto simp: field_step_initialised)
qed

text \<open>
  Had both names been bound before the loop, the accumulator to the empty list, the report
  would name exactly the fields that ended in ALERT or that are required and failed in
  their FILL or UPLOAD, in document order.
\<close>

lemma initialised_loop_reports:
  "process_fields_from (Some a, Some []) cfg pg p fs =
     Inr (if filter (needs_report cfg pg p) fs \<noteq> []
          then Some (map name (filter (needs_report cfg pg p) fs)) else None)"
proof -
  from field_loop_initialised[of cfg pg p fs a "[]"] obtain a' where
    "field_loop cfg pg p fs (Some a, Some []) =
       Inr (Some a', Some (map name (filter (needs_report cfg pg p) fs)))"
    by auto
  then show ?thesis
    by (simp add: process_fields_from_def and_then_def report_missing_def)
qed

section \<open>The application history\<close>

text \<open>
  Claim C3, where the code departs from it. The module never imports \<^verbatim>\<open>datetime\<close>, so
  building the record raises NameError before the file is read; the handler logs it and the
  store is left as it was. After saving A and then B the store is what it was before, and a
  missing store is still missing.
\<close>

theorem history_never_written:
  "save_body module_globals now store jd an cl = Inl NameError
   \<and> save_application_details now store jd an cl = store
   \<and> save_application_details now' (save_application_details now store jd an cl) jd' an' cl'
       = store"
  by (simp add: save_application_details_def save_application_details_in_def save_body_def
      lookup_global_def module_globals_def and_then_def)

text \<open>
  In a module that binds \<^verbatim>\<open>datetime\<close> the same code appends: from a missing store or one
  that holds an array, saving A and then B reads back as the old records followed by A, B.
\<close>

lemma save_in_appends:
  "''datetime'' \<in> set globals \<Longrightarrow> load_history store = Inr xs \<Longrightarrow>
     save_application_details_in globals now store jd an cl =
       Some (JList (xs @ [\<lparr>job_details = jd, analysis = an, cover_letter = cl,
                            timestamp = now, status = ''attempted''\<rparr>]))"
  by (simp add: save_application_details_in_def save_body_def lookup_global_def and_then_def)

lemma save_in_twice:
  assumes "''datetime'' \<in> set globals" "load_history store = Inr xs"
  shows "read_back (save_application_details_in globals now'
           (save_application_details_in globals now store jd an cl) jd' an' cl') =
         Some (xs @ [\<lparr>job_details = jd, analysis = an, cover_letter = cl,
                            timestamp = now, status = ''attempted''\<rparr>,
                     \<lparr>job_details = jd', analysis = an', cover_letter = cl',
                            timestamp = now', status = ''attempted''\<rparr>])"
proof -
  have "load_history (save_application_details_in globals now store jd an cl) =
      Inr (xs @ [\<lparr>job_details = jd, analysis = an, cover_letter = cl,
                            timestamp = now, status = ''attempted''\<rparr>])"
    using assms by (simp add: save_in_appends load_history_def)
  from save_in_appends[OF assms(1) this] show ?thesis by (simp add: read_back_def)
qed

end
